theory Spec2Isabelle
  imports Complex_Main "HOL-Library.Word"
begin

section \<open>JavaScript numbers and typed-array bytes\<close>

text \<open>
  The pixel buffers of the program are \<open>Uint8ClampedArray\<close>s: flat arrays of bytes in the
  order R, G, B, A. A byte is an \<open>8 word\<close>; reading one gives a number in \<open>[0, 255]\<close>.
  A JavaScript number is a double; the model holds its value as a real and rounds the
  results of the operations to doubles (see \<open>fl\<close> below). The two statements that are
  left in exact arithmetic, the blend with white and the quantization by a step, say why
  the byte they store is that of the double computation. Where the program can produce
  \<open>NaN\<close> the model says so: a score that can be \<open>NaN\<close> is an option, with \<open>None\<close>
  for \<open>NaN\<close>.
\<close>

type_synonym byte = "8 word"

definition num :: "byte \<Rightarrow> real" where
  "num b = real_of_int (uint b)"

text \<open>
  \<open>Math.round\<close>: the nearest integer, a tie going up. It is exact: the argument is the
  value of a double and is not rounded again.
\<close>

definition Math_round :: "real \<Rightarrow> int" where
  "Math_round x = \<lfloor>x + 1 / 2\<rfloor>"

subsection \<open>Double-precision arithmetic\<close>

text \<open>
  \<open>binade x\<close> is the exponent \<open>e\<close> with \<open>2 ^ e \<le> \<bar>x\<bar> < 2 ^ (e + 1)\<close>, found by halving
  or doubling; it stops at the exponent range of doubles, from -1022 (below which
  doubles are subnormal and equally spaced) to 1023.
\<close>

fun binadeUp :: "nat \<Rightarrow> real \<Rightarrow> int" where
  "binadeUp fuel x = (if fuel = 0 \<or> x < 2 then 0 else 1 + binadeUp (fuel - 1) (x / 2))"

fun binadeDown :: "nat \<Rightarrow> real \<Rightarrow> int" where
  "binadeDown fuel x = (if fuel = 0 \<or> 1 \<le> x then 0 else binadeDown (fuel - 1) (2 * x) - 1)"

declare binadeUp.simps [simp del]

declare binadeDown.simps [simp del]

definition binade :: "real \<Rightarrow> int" where
  "binade x = (if 1 \<le> \<bar>x\<bar> then binadeUp 1023 \<bar>x\<bar> else binadeDown 1022 \<bar>x\<bar>)"

definition pow2 :: "int \<Rightarrow> real" where
  "pow2 k = (if 0 \<le> k then 2 ^ nat k else 1 / 2 ^ nat (- k))"

text \<open>The nearest integer, a tie going to the even neighbour.\<close>

definition roundHalfEven :: "real \<Rightarrow> int" where
  "roundHalfEven x =
     (let f = \<lfloor>x\<rfloor> in
      if x < real_of_int f + 1 / 2 then f
      else if real_of_int f + 1 / 2 < x then f + 1
      else if even f then f else f + 1)"

text \<open>
  \<open>fl x\<close> is the double nearest to \<open>x\<close> (IEEE 754 binary64, round to nearest, ties to
  even): \<open>x\<close> rounded to a multiple of \<open>2 ^ (binade x - 52)\<close>. Numbers of magnitude
  \<open>2 ^ 1024\<close> and more, which a double operation turns into \<open>Infinity\<close>, are outside the
  model; they do not arise from bytes, from bitmap dimensions (unsigned 32-bit integers)
  and from size limits that are whole numbers below \<open>2 ^ 53\<close>.
\<close>

definition fl :: "real \<Rightarrow> real" where
  "fl x = (if x = 0 then 0
           else (let ulp = pow2 (binade x - 52)
                 in real_of_int (roundHalfEven (x / ulp)) * ulp))"

text \<open>
  A decimal literal of the program, and the operators \<open>+\<close>, \<open>-\<close>, \<open>*\<close> and \<open>/\<close> on
  numbers (\<open>divD\<close> is used with a divisor that is not zero; division by zero is written
  out where the program can reach it).
\<close>

definition lit :: "real \<Rightarrow> real" where
  "lit c = fl c"

definition addD :: "real \<Rightarrow> real \<Rightarrow> real" where
  "addD a b = fl (a + b)"

definition subD :: "real \<Rightarrow> real \<Rightarrow> real" where
  "subD a b = fl (a - b)"

definition mulD :: "real \<Rightarrow> real \<Rightarrow> real" where
  "mulD a b = fl (a * b)"

definition divD :: "real \<Rightarrow> real \<Rightarrow> real" where
  "divD a b = fl (a / b)"

subsection \<open>Storing into a typed array\<close>

text \<open>
  Storing a number into a \<open>Uint8ClampedArray\<close> (the conversion \<open>ToUint8Clamp\<close> of the
  language): clamp to \<open>[0, 255]\<close>, then round to the nearest integer, a tie going to the
  even neighbour.
\<close>

definition ToUint8Clamp :: "real \<Rightarrow> byte" where
  "ToUint8Clamp x =
     (if x \<le> 0 then 0
      else if 255 \<le> x then 255
      else (let f = \<lfloor>x\<rfloor> in
            if x < real_of_int f + 1 / 2 then word_of_int f
            else if real_of_int f + 1 / 2 < x then word_of_int (f + 1)
            else if even f then word_of_int f else word_of_int (f + 1)))"

section \<open>ImageOptimizerService: the complexity score\<close>

subsection \<open>calculateImageComplexity\<close>

text \<open>
  The loop \<open>for (i = 0; i < data.length - 4; i += 4)\<close> compares the RGB triple at \<open>i\<close>
  with the one at \<open>i + 4\<close>. \<open>scanPairs\<close> is that loop on the rest of the array from
  \<open>i\<close> on, returning \<open>(totalVariance, edgeCount)\<close>. The loop runs while at least five
  bytes remain; with five or six bytes left, \<open>data[i + 5]\<close> or \<open>data[i + 6]\<close> is
  \<open>undefined\<close> and the variance, hence the total, is \<open>NaN\<close> (\<open>None\<close>). The differences
  and their sums are whole numbers far below \<open>2 ^ 53\<close>, so these additions are exact in
  doubles.
\<close>

fun scanPairs :: "byte list \<Rightarrow> (real \<times> nat) option" where
  "scanPairs (r1 # g1 # b1 # a1 # r2 # g2 # b2 # rest) =
     (let variance = \<bar>num r1 - num r2\<bar> + \<bar>num g1 - num g2\<bar> + \<bar>num b1 - num b2\<bar>
      in case scanPairs (r2 # g2 # b2 # rest) of
           None \<Rightarrow> None
         | Some (totalVariance, edgeCount) \<Rightarrow>
             Some (variance + totalVariance,
                   (if variance > 30 then edgeCount + 1 else edgeCount)))"
| "scanPairs [r1, g1, b1, a1, r2, g2] = None"
| "scanPairs [r1, g1, b1, a1, r2] = None"
| "scanPairs data = Some (0, 0)"

text \<open>
  After the loop both sums are divided by \<open>data.length / 4\<close>. For the empty array this is
  \<open>0 / 0\<close>, which is \<open>NaN\<close> in JavaScript, and \<open>Math.min(1, NaN)\<close> is \<open>NaN\<close>: the
  function returns \<open>None\<close> there.
\<close>

definition calculateImageComplexity :: "byte list \<Rightarrow> real option" where
  "calculateImageComplexity data =
     (case scanPairs data of
        None \<Rightarrow> None
      | Some (totalVariance, edgeCount) \<Rightarrow>
          if length data = 0 then None
          else (let avgVariance = divD totalVariance (divD (real (length data)) 4);
                    edgeRatio = divD (real edgeCount) (divD (real (length data)) 4)
                in Some (min 1 (addD (mulD (divD avgVariance 100) (lit 0.5))
                                     (mulD edgeRatio (lit 0.5))))))"

subsection \<open>The branch of calculateOptimalQuality\<close>

text \<open>
  The three-way branch at the end of \<open>calculateOptimalQuality\<close>. A comparison with
  \<open>NaN\<close> is false, so a \<open>NaN\<close> complexity falls through to the last branch. The
  thresholds are written as the decimals 0.7 and 0.4: no double lies between a decimal
  and the double nearest to it, so a double exceeds the one exactly when it exceeds the
  other.
\<close>

definition qualityForComplexity :: "real option \<Rightarrow> real" where
  "qualityForComplexity complexity =
     (case complexity of
        None \<Rightarrow> 0.75
      | Some c \<Rightarrow> if c > 0.7 then 0.92 else if c > 0.4 then 0.85 else 0.75)"

section \<open>Types (image.types.ts)\<close>

datatype ImageFormat = JPEG | PNG | WEBP | AVIF | GIF | BMP

text \<open>The table \<open>IMAGE_EXTENSIONS\<close>, an object literal, as an association list.\<close>

definition IMAGE_EXTENSIONS :: "(string \<times> ImageFormat) list" where
  "IMAGE_EXTENSIONS =
     [(''jpg'', JPEG), (''jpeg'', JPEG), (''png'', PNG), (''webp'', WEBP),
      (''avif'', AVIF), (''gif'', GIF), (''bmp'', BMP)]"

text \<open>
  \<open>IMAGE_EXTENSIONS\<close> is created by an object literal, so its prototype is
  \<open>Object.prototype\<close>. These are the property names every such object inherits.
\<close>

definition Object_prototype_keys :: "string list" where
  "Object_prototype_keys =
     [''constructor'', ''__proto__'', ''hasOwnProperty'', ''isPrototypeOf'',
      ''propertyIsEnumerable'', ''toLocaleString'', ''toString'', ''valueOf'',
      ''__defineGetter__'', ''__defineSetter__'', ''__lookupGetter__'', ''__lookupSetter__'']"

text \<open>
  The operator \<open>key in obj\<close>: true for the object's own properties and for those found
  along its prototype chain.
\<close>

definition in_object :: "string \<Rightarrow> (string \<times> 'v) list \<Rightarrow> bool" where
  "in_object key obj \<longleftrightarrow> key \<in> set (map fst obj) \<or> key \<in> set Object_prototype_keys"

text \<open>The fields of a \<open>File\<close> that the program reads: \<open>name\<close>, \<open>type\<close> and \<open>size\<close>.\<close>

record File =
  fname :: string
  ftype :: string
  fsize :: nat

record ProcessingOptions =
  targetFormat :: ImageFormat
  quality :: real
  optimize :: bool
  maxWidth :: "nat option"
  maxHeight :: "nat option"
  maintainAspectRatio :: bool

text \<open>
  An \<open>ImageBitmap\<close>: its dimensions and its pixels (RGBA, row by row). A bitmap that has
  been closed has width and height 0 and no pixels.
\<close>

record ImageBitmap =
  width :: nat
  height :: nat
  pixels :: "byte list"

definition closeBitmap :: "ImageBitmap \<Rightarrow> ImageBitmap" where
  "closeBitmap bm = \<lparr>width = 0, height = 0, pixels = []\<rparr>"

text \<open>A canvas with its 2d drawing buffer.\<close>

record Canvas =
  cwidth :: nat
  cheight :: nat
  cdata :: "byte list"

section \<open>Strings\<close>

text \<open>
  \<open>s.startsWith(p)\<close>, \<open>s.split(c)\<close> for a one-character separator (the result is never
  empty: a string without the separator gives the one-element array of itself), and
  \<open>s.toLowerCase()\<close>. File names are taken to be ASCII strings: lower-casing changes the
  letters A to Z and nothing else.
\<close>

definition startsWith :: "string \<Rightarrow> string \<Rightarrow> bool" where
  "startsWith s p \<longleftrightarrow> take (length p) s = p"

fun split :: "char \<Rightarrow> string \<Rightarrow> string list" where
  "split c [] = [[]]"
| "split c (x # xs) =
     (if x = c then [] # split c xs
      else (case split c xs of
              seg # segs \<Rightarrow> (x # seg) # segs
            | [] \<Rightarrow> [[x]]))"

definition toLowerCase_char :: "char \<Rightarrow> char" where
  "toLowerCase_char c =
     (case map_of (zip ''ABCDEFGHIJKLMNOPQRSTUVWXYZ'' ''abcdefghijklmnopqrstuvwxyz'') c of
        Some l \<Rightarrow> l
      | None \<Rightarrow> c)"

definition toLowerCase :: "string \<Rightarrow> string" where
  "toLowerCase s = map toLowerCase_char s"

section \<open>ImageProcessorService: validation\<close>

text \<open>
  \<open>file.name.split('.').pop()?.toLowerCase() || ''\<close>: the last segment of the name,
  lower-cased (the empty string when that segment is empty).
\<close>

definition extensionOf :: "string \<Rightarrow> string" where
  "extensionOf n = toLowerCase (last (split (CHR ''.'') n))"

definition isValidImage :: "File \<Rightarrow> bool" where
  "isValidImage file =
     (if \<not> startsWith (ftype file) ''image/'' then False
      else in_object (extensionOf (fname file)) IMAGE_EXTENSIONS)"

section \<open>The platform\<close>

text \<open>
  What the program asks of the browser, as parameters: decoding a file
  (\<open>createImageBitmap\<close>, \<open>None\<close> when the promise is rejected), whether
  \<open>canvas.getContext('2d')\<close> yields a context, scaling a bitmap onto a canvas of a given
  size and reading it back as a bitmap (\<open>None\<close> when \<open>toBlob\<close> or the decoding fails),
  encoding a canvas (\<open>canvas.toBlob\<close>, \<open>None\<close> when the callback receives \<open>null\<close>), and
  the size of a blob.
\<close>

record 'b Platform =
  createImageBitmap :: "File \<Rightarrow> ImageBitmap option"
  getContext2d :: bool
  scaleBitmap :: "ImageBitmap \<Rightarrow> nat \<Rightarrow> nat \<Rightarrow> ImageBitmap option"
  toBlob :: "Canvas \<Rightarrow> ImageFormat \<Rightarrow> real \<Rightarrow> 'b option"
  blobSize :: "'b \<Rightarrow> nat"

datatype Error =
    InvalidImageFile
  | FailedToLoadImage
  | FailedToGetCanvasContext
  | UnsupportedImageFormat
  | FailedToConvertCanvasToBlob
  | AvifNotSupported
  | ResizeRejected
  | InvalidStateError

text \<open>
  \<open>createCanvas\<close> followed by \<open>ctx.drawImage(imageData, 0, 0)\<close>: a canvas of the bitmap's
  size holding its pixels. Drawing a closed bitmap throws. The canvas is taken to hold
  the RGBA bytes exactly, and \<open>getImageData\<close> over the whole canvas followed by
  \<open>putImageData\<close> to read and write that buffer.
\<close>

definition drawImage :: "ImageBitmap \<Rightarrow> Error + Canvas" where
  "drawImage imageData =
     (if width imageData = 0 \<or> height imageData = 0 then Inl InvalidStateError
      else Inr \<lparr>cwidth = width imageData, cheight = height imageData,
                cdata = pixels imageData\<rparr>)"

section \<open>ImageOptimizerService: the canvas operations\<close>

subsection \<open>calculateOptimalQuality\<close>

text \<open>\<open>ctx.getImageData(0, 0, sw, sh).data\<close>: the first \<open>sw\<close> pixels of the first \<open>sh\<close> rows.\<close>

definition getImageData :: "Canvas \<Rightarrow> nat \<Rightarrow> nat \<Rightarrow> byte list" where
  "getImageData canvas sw sh =
     concat (map (\<lambda>y. take (4 * sw) (drop (4 * y * cwidth canvas) (cdata canvas))) [0..<sh])"

definition calculateOptimalQuality :: "'b Platform \<Rightarrow> ImageBitmap \<Rightarrow> Error + real" where
  "calculateOptimalQuality P imageData =
     (if \<not> getContext2d P then Inr 0.85
      else case drawImage imageData of
             Inl e \<Rightarrow> Inl e
           | Inr canvas \<Rightarrow>
               (let sampleData = getImageData canvas (min 100 (width imageData))
                                                     (min 100 (height imageData));
                    complexity = calculateImageComplexity sampleData
                in Inr (qualityForComplexity complexity)))"

subsection \<open>applyPsychovisualOptimization\<close>

text \<open>
  The body of the loop, for one pixel: to YCbCr, chroma to a multiple of 4, and back,
  every operation in doubles and in the order in which the expressions are evaluated.
\<close>

definition psychovisualPixel :: "byte \<Rightarrow> byte \<Rightarrow> byte \<Rightarrow> byte \<times> byte \<times> byte" where
  "psychovisualPixel r0 g0 b0 =
     (let r = num r0; g = num g0; b = num b0;
          y = addD (addD (mulD (lit 0.299) r) (mulD (lit 0.587) g)) (mulD (lit 0.114) b);
          cb = addD (addD (subD (mulD (- lit 0.168736) r) (mulD (lit 0.331264) g))
                          (mulD (lit 0.5) b)) 128;
          cr = addD (subD (subD (mulD (lit 0.5) r) (mulD (lit 0.418688) g))
                          (mulD (lit 0.081312) b)) 128;
          cbOptimized = mulD (real_of_int (Math_round (divD cb 4))) 4;
          crOptimized = mulD (real_of_int (Math_round (divD cr 4))) 4;
          rOptimized = addD y (mulD (lit 1.402) (subD crOptimized 128));
          gOptimized = subD (subD y (mulD (lit 0.344136) (subD cbOptimized 128)))
                            (mulD (lit 0.714136) (subD crOptimized 128));
          bOptimized = addD y (mulD (lit 1.772) (subD cbOptimized 128))
      in (ToUint8Clamp (max 0 (min 255 (real_of_int (Math_round rOptimized)))),
          ToUint8Clamp (max 0 (min 255 (real_of_int (Math_round gOptimized)))),
          ToUint8Clamp (max 0 (min 255 (real_of_int (Math_round bOptimized))))))"

text \<open>
  The loop \<open>for (i = 0; i < data.length; i += 4)\<close>. The buffer of a canvas always holds
  whole pixels; the equations for fewer than four bytes say what the loop does to an
  array that ends inside a pixel (alpha is not read; a missing channel reads as
  \<open>undefined\<close>, the three results are then \<open>NaN\<close>, stored as 0, and a store past the end
  is ignored).
\<close>

fun applyPsychovisualOptimization :: "byte list \<Rightarrow> byte list" where
  "applyPsychovisualOptimization (r # g # b # a # rest) =
     (case psychovisualPixel r g b of
        (r', g', b') \<Rightarrow> r' # g' # b' # a # applyPsychovisualOptimization rest)"
| "applyPsychovisualOptimization [r, g, b] =
     (case psychovisualPixel r g b of (r', g', b') \<Rightarrow> [r', g', b'])"
| "applyPsychovisualOptimization [r, g] = [0, 0]"
| "applyPsychovisualOptimization [r] = [0]"
| "applyPsychovisualOptimization [] = []"

section \<open>Conversion strategies\<close>

text \<open>
  A strategy's \<open>convert(imageData, quality, optimize)\<close>: the blob or the error, and the
  bitmap as the call leaves it (the interface lets an implementation close it).
\<close>

type_synonym 'b Strategy = "ImageBitmap \<Rightarrow> real \<Rightarrow> bool \<Rightarrow> (Error + 'b) \<times> ImageBitmap"

definition canvasToBlob :: "'b Platform \<Rightarrow> ImageFormat \<Rightarrow> Canvas \<Rightarrow> real \<Rightarrow> Error + 'b" where
  "canvasToBlob P fmt canvas q =
     (case toBlob P canvas fmt q of
        Some blob \<Rightarrow> Inr blob
      | None \<Rightarrow> Inl FailedToConvertCanvasToBlob)"

text \<open>
  The statement \<open>data[i] = Math.round(data[i] / step) * step\<close> shared by the base, PNG
  and WebP optimizations. It is written in exact arithmetic, which gives the stored byte
  of the double computation: for the steps 2 and 4 the quotient and the product are
  doubles exactly; for the step 1.5 the quotient of a whole number is at least 1/6 away
  from a tie of \<open>Math.round\<close>, and the product of an integer up to 170 and 1.5 is
  exact.
\<close>

definition quantizeChannel :: "real \<Rightarrow> byte \<Rightarrow> byte" where
  "quantizeChannel step v = ToUint8Clamp (real_of_int (Math_round (num v / step)) * step)"

text \<open>
  A loop that rewrites the R, G and B bytes of each pixel by \<open>f\<close> and leaves alpha alone.
  In an array that ends inside a pixel the bytes present are rewritten as well.
\<close>

fun mapRGB :: "(byte \<Rightarrow> byte) \<Rightarrow> byte list \<Rightarrow> byte list" where
  "mapRGB f (r # g # b # a # rest) = f r # f g # f b # a # mapRGB f rest"
| "mapRGB f data = map f data"

definition BaseConversionStrategy_applyOptimization :: "byte list \<Rightarrow> byte list" where
  "BaseConversionStrategy_applyOptimization data = mapRGB (quantizeChannel 2) data"

definition applyPngOptimization :: "byte list \<Rightarrow> byte list" where
  "applyPngOptimization data = mapRGB (quantizeChannel 4) data"

definition WebpConversionStrategy_applyOptimization :: "byte list \<Rightarrow> byte list" where
  "WebpConversionStrategy_applyOptimization data = mapRGB (quantizeChannel 1.5) data"

definition AvifConversionStrategy_applyOptimization :: "byte list \<Rightarrow> byte list" where
  "AvifConversionStrategy_applyOptimization data =
     mapRGB (\<lambda>v. ToUint8Clamp (real_of_int (Math_round (num v)))) data"

text \<open>
  The first loop of \<open>JpegConversionStrategy.applyOptimization\<close>: pixels that are not fully
  opaque are blended with white. In an array that ends inside a pixel the alpha of the
  last one is \<open>undefined\<close>, the comparison is false and nothing is written. The blend
  is written in exact arithmetic: for bytes it is never closer than 1/510 to a tie of
  \<open>Math.round\<close>, far more than the rounding error of the double operations, so the
  rounded value is that of the double computation.
\<close>

definition blendWhite :: "byte \<Rightarrow> real \<Rightarrow> byte" where
  "blendWhite c alpha =
     ToUint8Clamp (real_of_int (Math_round (num c * alpha + 255 * (1 - alpha))))"

fun compositeOnWhite :: "byte list \<Rightarrow> byte list" where
  "compositeOnWhite (r # g # b # a # rest) =
     (let alpha = num a / 255
      in if alpha < 1
         then blendWhite r alpha # blendWhite g alpha # blendWhite b alpha # 255
              # compositeOnWhite rest
         else r # g # b # a # compositeOnWhite rest)"
| "compositeOnWhite data = data"

text \<open>The whole override: the blending loop, then \<open>super.applyOptimization\<close>.\<close>

definition JpegConversionStrategy_applyOptimization :: "byte list \<Rightarrow> byte list" where
  "JpegConversionStrategy_applyOptimization data =
     BaseConversionStrategy_applyOptimization (compositeOnWhite data)"

text \<open>
  \<open>BaseConversionStrategy.convert\<close>, with the strategy's format and its
  \<open>applyOptimization\<close> as parameters. It does not close the bitmap.
\<close>

definition BaseConversionStrategy_convert ::
  "'b Platform \<Rightarrow> ImageFormat \<Rightarrow> (byte list \<Rightarrow> byte list) \<Rightarrow> 'b Strategy" where
  "BaseConversionStrategy_convert P fmt applyOptimization imageData q opt =
     ((if \<not> getContext2d P then Inl FailedToGetCanvasContext
       else case drawImage imageData of
              Inl e \<Rightarrow> Inl e
            | Inr canvas \<Rightarrow>
                canvasToBlob P fmt
                  (if opt then canvas\<lparr>cdata := applyOptimization (cdata canvas)\<rparr> else canvas)
                  q),
      imageData)"

definition JpegConversionStrategy_convert :: "'b Platform \<Rightarrow> 'b Strategy" where
  "JpegConversionStrategy_convert P =
     BaseConversionStrategy_convert P JPEG JpegConversionStrategy_applyOptimization"

definition WebpConversionStrategy_convert :: "'b Platform \<Rightarrow> 'b Strategy" where
  "WebpConversionStrategy_convert P =
     BaseConversionStrategy_convert P WEBP WebpConversionStrategy_applyOptimization"

text \<open>PNG overrides \<open>convert\<close>: its own optimization, and quality 1.0 to the encoder.\<close>

definition PngConversionStrategy_convert :: "'b Platform \<Rightarrow> 'b Strategy" where
  "PngConversionStrategy_convert P imageData q opt =
     ((if \<not> getContext2d P then Inl FailedToGetCanvasContext
       else case drawImage imageData of
              Inl e \<Rightarrow> Inl e
            | Inr canvas \<Rightarrow>
                canvasToBlob P PNG
                  (if opt then canvas\<lparr>cdata := applyPngOptimization (cdata canvas)\<rparr> else canvas)
                  1.0),
      imageData)"

text \<open>AVIF overrides \<open>convert\<close>: a failure of the encoder is reported in its own words.\<close>

definition AvifConversionStrategy_convert :: "'b Platform \<Rightarrow> 'b Strategy" where
  "AvifConversionStrategy_convert P imageData q opt =
     ((if \<not> getContext2d P then Inl FailedToGetCanvasContext
       else case drawImage imageData of
              Inl e \<Rightarrow> Inl e
            | Inr canvas \<Rightarrow>
                (case canvasToBlob P AVIF
                        (if opt
                         then canvas\<lparr>cdata := AvifConversionStrategy_applyOptimization (cdata canvas)\<rparr>
                         else canvas)
                        q of
                   Inl e \<Rightarrow> Inl AvifNotSupported
                 | Inr blob \<Rightarrow> Inr blob)),
      imageData)"

text \<open>GIF and BMP override \<open>convert\<close>: no optimization, quality 1.0.\<close>

definition plainConvert :: "'b Platform \<Rightarrow> ImageFormat \<Rightarrow> 'b Strategy" where
  "plainConvert P fmt imageData q opt =
     ((if \<not> getContext2d P then Inl FailedToGetCanvasContext
       else case drawImage imageData of
              Inl e \<Rightarrow> Inl e
            | Inr canvas \<Rightarrow> canvasToBlob P fmt canvas 1.0),
      imageData)"

definition GifConversionStrategy_convert :: "'b Platform \<Rightarrow> 'b Strategy" where
  "GifConversionStrategy_convert P = plainConvert P GIF"

definition BmpConversionStrategy_convert :: "'b Platform \<Rightarrow> 'b Strategy" where
  "BmpConversionStrategy_convert P = plainConvert P BMP"

subsection \<open>ConversionStrategyFactory\<close>

text \<open>
  The registry is a map from formats to strategies; \<open>registerStrategy\<close> can replace an
  entry at run time, so the pipeline takes the registry as a parameter. This is its
  initial value.
\<close>

definition ConversionStrategyFactory_strategies ::
  "'b Platform \<Rightarrow> ImageFormat \<rightharpoonup> 'b Strategy" where
  "ConversionStrategyFactory_strategies P =
     [JPEG \<mapsto> JpegConversionStrategy_convert P,
      PNG \<mapsto> PngConversionStrategy_convert P,
      WEBP \<mapsto> WebpConversionStrategy_convert P,
      AVIF \<mapsto> AvifConversionStrategy_convert P,
      GIF \<mapsto> GifConversionStrategy_convert P,
      BMP \<mapsto> BmpConversionStrategy_convert P]"

definition getStrategy :: "(ImageFormat \<rightharpoonup> 'b Strategy) \<Rightarrow> ImageFormat \<Rightarrow> Error + 'b Strategy" where
  "getStrategy strategies fmt =
     (case strategies fmt of
        None \<Rightarrow> Inl UnsupportedImageFormat
      | Some strategy \<Rightarrow> Inr strategy)"

section \<open>ImageProcessorService: the pipeline\<close>

text \<open>
  The fields of \<open>ProcessingResult\<close> that depend on pixels, sizes and options; the
  compression ratio and the processing time, which are derived from the two sizes and from
  the clock, are left out.
\<close>

record 'b ProcessingResult =
  res_blob :: 'b
  res_format :: ImageFormat
  res_originalSize :: nat
  res_processedSize :: nat
  res_width :: nat
  res_height :: nat

definition loadImage :: "'b Platform \<Rightarrow> File \<Rightarrow> Error + ImageBitmap" where
  "loadImage P file =
     (case createImageBitmap P file of
        Some bm \<Rightarrow> Inr bm
      | None \<Rightarrow> Inl FailedToLoadImage)"

text \<open>An optional number used as a condition: \<open>undefined\<close> and 0 are false.\<close>

definition truthy :: "nat option \<Rightarrow> bool" where
  "truthy m \<longleftrightarrow> (case m of None \<Rightarrow> False | Some v \<Rightarrow> v \<noteq> 0)"

definition shouldResize :: "ImageBitmap \<Rightarrow> ProcessingOptions \<Rightarrow> bool" where
  "shouldResize imageBitmap options =
     (if \<not> truthy (maxWidth options) \<and> \<not> truthy (maxHeight options) then False
      else (truthy (maxWidth options) \<and> width imageBitmap > the (maxWidth options))
         \<or> (truthy (maxHeight options) \<and> height imageBitmap > the (maxHeight options)))"

text \<open>
  The computation of \<open>newWidth\<close> and \<open>newHeight\<close> at the head of \<open>resizeImage\<close>, for a
  bitmap of width \<open>w\<close> and height \<open>h\<close>, with the quotients and the product in doubles.
  A bitmap that is not closed has positive dimensions, so the aspect ratio is a positive
  number.
\<close>

definition resizeDimensions :: "nat \<Rightarrow> nat \<Rightarrow> ProcessingOptions \<Rightarrow> nat \<times> nat" where
  "resizeDimensions w h options =
     (if maintainAspectRatio options then
        (let aspectRatio = divD (real w) (real h);
             (newWidth1, newHeight1) =
               (if truthy (maxWidth options) \<and> w > the (maxWidth options)
                then (the (maxWidth options),
                      nat (Math_round (divD (real (the (maxWidth options))) aspectRatio)))
                else (w, h))
         in if truthy (maxHeight options) \<and> newHeight1 > the (maxHeight options)
            then (nat (Math_round (mulD (real (the (maxHeight options))) aspectRatio)),
                  the (maxHeight options))
            else (newWidth1, newHeight1))
      else
        ((if truthy (maxWidth options) then the (maxWidth options) else w),
         (if truthy (maxHeight options) then the (maxHeight options) else h)))"

text \<open>
  \<open>resizeImage\<close>: a canvas of the new size, the context check, then the scaled drawing
  and the round trip through a PNG blob, which are the platform's. Drawing a closed
  bitmap throws.
\<close>

definition resizeImage :: "'b Platform \<Rightarrow> ImageBitmap \<Rightarrow> ProcessingOptions \<Rightarrow> Error + ImageBitmap" where
  "resizeImage P imageBitmap options =
     (case resizeDimensions (width imageBitmap) (height imageBitmap) options of
        (newWidth, newHeight) \<Rightarrow>
          if \<not> getContext2d P then Inl FailedToGetCanvasContext
          else if width imageBitmap = 0 \<or> height imageBitmap = 0 then Inl InvalidStateError
          else (case scaleBitmap P imageBitmap newWidth newHeight of
                  None \<Rightarrow> Inl ResizeRejected
                | Some resized \<Rightarrow> Inr resized))"

text \<open>
  The first part of \<open>process\<close>, up to the bitmap that is handed to the strategy:
  validation, decoding, and resizing when \<open>shouldResize\<close> says so.
\<close>

definition prepareBitmap :: "'b Platform \<Rightarrow> File \<Rightarrow> ProcessingOptions \<Rightarrow> Error + ImageBitmap" where
  "prepareBitmap P file options =
     (if \<not> isValidImage file then Inl InvalidImageFile
      else case loadImage P file of
             Inl e \<Rightarrow> Inl e
           | Inr imageBitmap \<Rightarrow>
               if shouldResize imageBitmap options
               then resizeImage P imageBitmap options
               else Inr imageBitmap)"

text \<open>
  The statements under \<open>// Determine quality\<close>. The optimizer is the optional constructor
  argument of the service: its \<open>calculateOptimalQuality\<close> when one was given.
\<close>

definition determineQuality ::
  "(ImageBitmap \<Rightarrow> Error + real) option \<Rightarrow> ProcessingOptions \<Rightarrow> ImageBitmap \<Rightarrow> Error + real" where
  "determineQuality optimizer options resizedBitmap =
     (case (optimize options, optimizer) of
        (True, Some calc) \<Rightarrow> calc resizedBitmap
      | _ \<Rightarrow> Inr (quality options))"

text \<open>
  \<open>process\<close>. The width and height of the result are read from the bitmap before the
  strategy is called; what the strategy leaves of the bitmap is not looked at again
  (it is only closed).
\<close>

definition process ::
  "'b Platform \<Rightarrow> (ImageFormat \<rightharpoonup> 'b Strategy) \<Rightarrow> (ImageBitmap \<Rightarrow> Error + real) option
     \<Rightarrow> File \<Rightarrow> ProcessingOptions \<Rightarrow> Error + 'b ProcessingResult" where
  "process P strategies optimizer file options =
     (case prepareBitmap P file options of
        Inl e \<Rightarrow> Inl e
      | Inr resizedBitmap \<Rightarrow>
          (case getStrategy strategies (targetFormat options) of
             Inl e \<Rightarrow> Inl e
           | Inr strategy \<Rightarrow>
               (case determineQuality optimizer options resizedBitmap of
                  Inl e \<Rightarrow> Inl e
                | Inr q \<Rightarrow>
                    (let resultWidth = width resizedBitmap;
                         resultHeight = height resizedBitmap
                     in case strategy resizedBitmap q (optimize options) of
                          (Inl e, bitmapAfter) \<Rightarrow> Inl e
                        | (Inr resultBlob, bitmapAfter) \<Rightarrow>
                            Inr \<lparr>res_blob = resultBlob,
                                 res_format = targetFormat options,
                                 res_originalSize = fsize file,
                                 res_processedSize = blobSize P resultBlob,
                                 res_width = resultWidth,
                                 res_height = resultHeight\<rparr>))))"

section \<open>A platform and a strategy for examples\<close>

text \<open>
  A platform that decodes every file to a given bitmap, always has a 2d context, scales to
  a white bitmap of the requested size, and whose encoder returns the arguments it was
  called with, so that a result shows what the encoder was given.
\<close>

definition recordingPlatform :: "ImageBitmap \<Rightarrow> (Canvas \<times> ImageFormat \<times> real) Platform" where
  "recordingPlatform bm =
     \<lparr>createImageBitmap = (\<lambda>file. Some bm),
      getContext2d = True,
      scaleBitmap = (\<lambda>b w h. Some \<lparr>width = w, height = h, pixels = replicate (4 * w * h) 255\<rparr>),
      toBlob = (\<lambda>canvas fmt q. Some (canvas, fmt, q)),
      blobSize = (\<lambda>blob. length (cdata (fst blob)))\<rparr>"

text \<open>
  A strategy, as \<open>registerStrategy\<close> admits it, that converts as the JPEG strategy does
  and closes the bitmap it was given.
\<close>

definition closingStrategy :: "'b Platform \<Rightarrow> 'b Strategy" where
  "closingStrategy P imageData q opt =
     (fst (JpegConversionStrategy_convert P imageData q opt), closeBitmap imageData)"

section \<open>Evaluating double arithmetic\<close>

lemmas fl_eval = fl_def binade_def binadeUp.simps binadeDown.simps pow2_def roundHalfEven_def
  lit_def addD_def subD_def mulD_def divD_def

lemma fl_0: "fl 0 = 0"
  by (simp add: fl_def)

section \<open>The quality selector\<close>

text \<open>
  With a context and a bitmap that is not closed, \<open>calculateOptimalQuality\<close> is the
  branch applied to the complexity of the sampled top-left region.
\<close>

lemma calculateOptimalQuality_selects:
  assumes "getContext2d P" and "0 < width bm" and "0 < height bm"
  shows "calculateOptimalQuality P bm =
           Inr (qualityForComplexity (calculateImageComplexity
                  (getImageData \<lparr>cwidth = width bm, cheight = height bm, cdata = pixels bm\<rparr>
                     (min 100 (width bm)) (min 100 (height bm)))))"
  using assms by (simp add: calculateOptimalQuality_def drawImage_def Let_def)



section \<open>The complexity analyzer on small regions\<close>




section \<open>Validation of the input file\<close>

text \<open>
  Claim C9 says that \<open>isValidImage\<close> holds exactly when the MIME type starts with
  \<open>image/\<close> and the extension is one of the supported ones. The code tests the extension
  with \<open>extension in IMAGE_EXTENSIONS\<close>, which also holds for the names inherited from
  \<open>Object.prototype\<close>: a file called \<open>photo.constructor\<close> with an image MIME type is
  accepted although \<open>constructor\<close> is not a key of the table.
\<close>

theorem isValidImage_accepts_prototype_key:
  "isValidImage \<lparr>fname = ''photo.constructor'', ftype = ''image/png'', fsize = 1\<rparr>
   \<and> startsWith ''image/png'' ''image/''
   \<and> extensionOf ''photo.constructor'' = ''constructor''
   \<and> ''constructor'' \<notin> set (map fst IMAGE_EXTENSIONS)
   \<and> isValidImage \<lparr>fname = ''photo.__proto__'', ftype = ''image/png'', fsize = 1\<rparr>
   \<and> ''__proto__'' \<notin> set (map fst IMAGE_EXTENSIONS)"
  by (simp add: isValidImage_def startsWith_def extensionOf_def toLowerCase_def
      toLowerCase_char_def in_object_def Object_prototype_keys_def IMAGE_EXTENSIONS_def)

section \<open>Resizing\<close>



section \<open>Bytes and rounding\<close>

lemma Math_round_of_int: "Math_round (real_of_int k) = k"
  unfolding Math_round_def by (rule floor_unique) simp_all

lemma ToUint8Clamp_of_int:
  assumes "0 \<le> k" and "k \<le> 255"
  shows "ToUint8Clamp (real_of_int k) = word_of_int k"
proof -
  consider "k = 0" | "k = 255" | "0 < k" "k < 255" using assms by linarith
  then show ?thesis
  proof cases
    case 1 then show ?thesis by (simp add: ToUint8Clamp_def)
  next
    case 2 then show ?thesis by (simp add: ToUint8Clamp_def)
  next
    case 3 then show ?thesis by (simp add: ToUint8Clamp_def)
  qed
qed

lemma uint_byte_le: "uint (v :: byte) \<le> 255"
  using uint_bounded [of v] by simp

lemma ToUint8Clamp_num: "ToUint8Clamp (num v) = v"
  unfolding num_def using ToUint8Clamp_of_int [of "uint v"] uint_byte_le [of v]
  by (simp add: word_of_int_uint)

lemma mapRGB_id: "(\<And>v. f v = v) \<Longrightarrow> mapRGB f data = data"
  by (induction f data rule: mapRGB.induct) (simp_all add: map_idI)

section \<open>The AVIF optimization\<close>

lemma avif_channel: "ToUint8Clamp (real_of_int (Math_round (num v))) = v"
proof -
  have "real_of_int (Math_round (num v)) = num v"
    unfolding num_def Math_round_of_int by (rule refl)
  then show ?thesis by (simp add: ToUint8Clamp_num)
qed

text \<open>
  Claim C10. The AVIF optimization rounds each R, G and B byte, which is an integer
  between 0 and 255 already, and stores it back: the buffer is unchanged, and
  \<open>AvifConversionStrategy.convert\<close> gives the encoder the same canvas, format and quality
  with \<open>optimize\<close> true as with \<open>optimize\<close> false, on every platform.
\<close>

theorem AvifConversionStrategy_applyOptimization_identity:
  "AvifConversionStrategy_applyOptimization data = data
   \<and> AvifConversionStrategy_convert P imageData q True
       = AvifConversionStrategy_convert P imageData q False"
proof -
  have id: "AvifConversionStrategy_applyOptimization d = d" for d
    unfolding AvifConversionStrategy_applyOptimization_def
    by (rule mapRGB_id) (rule avif_channel)
  show ?thesis
    by (simp add: id AvifConversionStrategy_convert_def split: sum.splits)
qed

section \<open>The chroma transform\<close>

lemma psychovisualPixel_first: "psychovisualPixel 0 0 14 = (2, 0, 16)"
  unfolding psychovisualPixel_def Let_def num_def Math_round_def
  apply (simp add: fl_eval)
  apply (simp add: ToUint8Clamp_def)
  done

lemma psychovisualPixel_second: "psychovisualPixel 2 0 16 = (2, 0, 17)"
  unfolding psychovisualPixel_def Let_def num_def Math_round_def
  apply (simp add: fl_eval)
  apply (simp add: ToUint8Clamp_def)
  done

lemma psychovisualPixel_other: "psychovisualPixel 12 34 56 = (13, 33, 58)"
  unfolding psychovisualPixel_def Let_def num_def Math_round_def
  apply (simp add: fl_eval)
  apply (simp add: ToUint8Clamp_def)
  done

lemma psychovisualPixel_other_fixed: "psychovisualPixel 13 33 58 = (13, 33, 58)"
  unfolding psychovisualPixel_def Let_def num_def Math_round_def
  apply (simp add: fl_eval)
  apply (simp add: ToUint8Clamp_def)
  done

text \<open>
  Claim C4. \<open>applyPsychovisualOptimization\<close> is not idempotent: there is a buffer of two
  pixels of different colours on which the second application changes the result of the
  first. The buffer is (0, 0, 14, 255), (12, 34, 56, 255): one pass gives
  (2, 0, 16, 255), (13, 33, 58, 255) and a second pass gives (2, 0, 17, 255),
  (13, 33, 58, 255). None of the calls of \<open>Math.round\<close> in these two passes is
  near a tie (each argument is more than 0.07 away from the next half-integer).
\<close>

theorem applyPsychovisualOptimization_not_idempotent:
  "\<exists>data. length data = 8 \<and> take 4 data \<noteq> drop 4 data
     \<and> applyPsychovisualOptimization (applyPsychovisualOptimization data)
         \<noteq> applyPsychovisualOptimization data"
proof -
  let ?data = "[0, 0, 14, 255, 12, 34, 56, 255] :: byte list"
  have once: "applyPsychovisualOptimization ?data = [2, 0, 16, 255, 13, 33, 58, 255]"
    by (simp add: psychovisualPixel_first psychovisualPixel_other)
  have twice: "applyPsychovisualOptimization [2, 0, 16, 255, 13, 33, 58, 255]
                 = [2, 0, 17, 255, 13, 33, 58, 255]"
    by (simp add: psychovisualPixel_second psychovisualPixel_other_fixed)
  have "length ?data = 8 \<and> take 4 ?data \<noteq> drop 4 ?data
     \<and> applyPsychovisualOptimization (applyPsychovisualOptimization ?data)
         \<noteq> applyPsychovisualOptimization ?data"
    unfolding once twice by simp
  then show ?thesis by blast
qed

section \<open>The JPEG strategy: blending with white\<close>

lemma Math_round_bounds:
  assumes "0 \<le> x" and "x \<le> 255"
  shows "0 \<le> Math_round x" and "Math_round x \<le> 255"
proof -
  show "0 \<le> Math_round x" unfolding Math_round_def using assms by simp
  have "x + 1 / 2 < real_of_int 256" using assms by simp
  then have "\<lfloor>x + 1 / 2\<rfloor> < 256" by (simp only: floor_less_iff)
  then show "Math_round x \<le> 255" unfolding Math_round_def by simp
qed

lemma Math_round_near: "\<bar>real_of_int (Math_round x) - x\<bar> \<le> 1 / 2"
  unfolding Math_round_def by linarith

lemma blend_bounds:
  assumes "0 \<le> c" "c \<le> 255" "0 \<le> al" "al \<le> (1::real)"
  shows "0 \<le> c * al + 255 * (1 - al)" and "c * al + 255 * (1 - al) \<le> 255"
proof -
  show "0 \<le> c * al + 255 * (1 - al)" using assms by simp
  have "c * al \<le> 255 * al" using assms by (simp add: mult_right_mono)
  then show "c * al + 255 * (1 - al) \<le> 255" by simp
qed

lemma num_bounds: "0 \<le> num v" "num v \<le> 255"
  using uint_byte_le [of v] by (simp_all add: num_def del: of_int_uint)

lemma uint_byte_of_int: "0 \<le> k \<Longrightarrow> k \<le> 255 \<Longrightarrow> uint (word_of_int k :: byte) = k"
  by (simp add: uint_word_of_int)

lemma uint_blendWhite:
  assumes "0 \<le> al" "al \<le> 1"
  shows "uint (blendWhite c al) = Math_round (num c * al + 255 * (1 - al))"
proof -
  let ?x = "num c * al + 255 * (1 - al)"
  have x: "0 \<le> ?x" "?x \<le> 255"
    using blend_bounds [OF num_bounds assms] by simp_all
  have k: "0 \<le> Math_round ?x" "Math_round ?x \<le> 255"
    using Math_round_bounds [OF x] by simp_all
  show ?thesis
    unfolding blendWhite_def
    by (simp only: ToUint8Clamp_of_int [OF k] uint_byte_of_int [OF k])
qed

lemma blendWhite_zero: "blendWhite c 0 = 255"
  by (simp add: blendWhite_def Math_round_def ToUint8Clamp_def)

lemma num_eq_255_iff: "num a = 255 \<longleftrightarrow> a = 255"
proof
  assume "num a = 255"
  then have "uint a = 255" by (simp add: num_def del: of_int_uint)
  then have "word_of_int (uint a) = (word_of_int 255 :: byte)" by simp
  then show "a = 255" by (simp only: word_of_int_uint) simp
next
  assume "a = 255" then show "num a = 255" by (simp add: num_def)
qed

text \<open>
  Claim C5. The blending loop of the JPEG strategy, pixel by pixel: a pixel with alpha 0
  becomes (255, 255, 255, 255); a pixel with alpha 255 is left as it is; a pixel with any
  other alpha gets alpha 255 and, in each of R, G and B, the value
  \<open>src * (alpha / 255) + 255 * (1 - alpha / 255)\<close> stored as a byte, that is, rounded to
  the nearest integer by \<open>Math.round\<close> (the result is within 1/2 of the blend).
\<close>

theorem compositeOnWhite_pixel:
  fixes r g b a :: byte
  shows "(a = 0 \<longrightarrow> compositeOnWhite (r # g # b # a # rest)
                     = 255 # 255 # 255 # 255 # compositeOnWhite rest)
       \<and> (a = 255 \<longrightarrow> compositeOnWhite (r # g # b # a # rest)
                     = r # g # b # a # compositeOnWhite rest)
       \<and> (a \<noteq> 255 \<longrightarrow>
            (\<exists>r' g' b'. compositeOnWhite (r # g # b # a # rest)
                            = r' # g' # b' # 255 # compositeOnWhite rest
               \<and> uint r' = Math_round (num r * (num a / 255) + 255 * (1 - num a / 255))
               \<and> \<bar>num r' - (num r * (num a / 255) + 255 * (1 - num a / 255))\<bar> \<le> 1 / 2
               \<and> uint g' = Math_round (num g * (num a / 255) + 255 * (1 - num a / 255))
               \<and> \<bar>num g' - (num g * (num a / 255) + 255 * (1 - num a / 255))\<bar> \<le> 1 / 2
               \<and> uint b' = Math_round (num b * (num a / 255) + 255 * (1 - num a / 255))
               \<and> \<bar>num b' - (num b * (num a / 255) + 255 * (1 - num a / 255))\<bar> \<le> 1 / 2))"
proof (intro conjI impI)
  let ?blend = "\<lambda>c. num c * (num a / 255) + 255 * (1 - num a / 255)"
  assume "a = 0"
  then show "compositeOnWhite (r # g # b # a # rest)
               = 255 # 255 # 255 # 255 # compositeOnWhite rest"
    by (simp add: num_def blendWhite_zero)
next
  assume "a = 255"
  then show "compositeOnWhite (r # g # b # a # rest) = r # g # b # a # compositeOnWhite rest"
    by (simp add: num_def)
next
  assume "a \<noteq> 255"
  then have "num a \<noteq> 255" by (simp add: num_eq_255_iff)
  then have lt: "num a / 255 < 1" using num_bounds [of a] by simp
  have al: "0 \<le> num a / 255" "num a / 255 \<le> 1" using num_bounds [of a] by simp_all
  have eq: "compositeOnWhite (r # g # b # a # rest)
              = blendWhite r (num a / 255) # blendWhite g (num a / 255)
                # blendWhite b (num a / 255) # 255 # compositeOnWhite rest"
    using lt by (simp add: Let_def)
  have u: "uint (blendWhite c (num a / 255))
             = Math_round (num c * (num a / 255) + 255 * (1 - num a / 255))" for c
    by (rule uint_blendWhite [OF al])
  have n: "\<bar>num (blendWhite c (num a / 255))
              - (num c * (num a / 255) + 255 * (1 - num a / 255))\<bar> \<le> 1 / 2" for c
    unfolding num_def [of "blendWhite c (num a / 255)"] u by (rule Math_round_near)
  show "\<exists>r' g' b'. compositeOnWhite (r # g # b # a # rest)
                            = r' # g' # b' # 255 # compositeOnWhite rest
               \<and> uint r' = Math_round (num r * (num a / 255) + 255 * (1 - num a / 255))
               \<and> \<bar>num r' - (num r * (num a / 255) + 255 * (1 - num a / 255))\<bar> \<le> 1 / 2
               \<and> uint g' = Math_round (num g * (num a / 255) + 255 * (1 - num a / 255))
               \<and> \<bar>num g' - (num g * (num a / 255) + 255 * (1 - num a / 255))\<bar> \<le> 1 / 2
               \<and> uint b' = Math_round (num b * (num a / 255) + 255 * (1 - num a / 255))
               \<and> \<bar>num b' - (num b * (num a / 255) + 255 * (1 - num a / 255))\<bar> \<le> 1 / 2"
    using eq u n by blast
qed

theorem compositeOnWhite_pixel_witness:
  "((0::byte) = 0 \<and> compositeOnWhite [7, 8, 9, 0] = [255, 255, 255, 255])
   \<and> ((255::byte) = 255 \<and> compositeOnWhite [1, 2, 3, 255] = [1, 2, 3, 255])
   \<and> ((77::byte) \<noteq> 255
      \<and> (\<exists>r' g' b'. compositeOnWhite [100, 50, 20, 77] = [r', g', b', 255]
            \<and> uint r' = Math_round (num (100::byte) * (num (77::byte) / 255) + 255 * (1 - num (77::byte) / 255))))"
proof -
  have t: "(77::byte) \<noteq> 255" by simp
  from compositeOnWhite_pixel [of 0 7 8 9 "[]"]
  have 1: "compositeOnWhite [7, 8, 9, 0] = [255, 255, 255, 255]" by simp
  from compositeOnWhite_pixel [of 255 1 2 3 "[]"]
  have 2: "compositeOnWhite [1, 2, 3, 255] = [1, 2, 3, 255]" by simp
  from compositeOnWhite_pixel [of 77 100 50 20 "[]"] t
  have 3: "\<exists>r' g' b'. compositeOnWhite [100, 50, 20, 77] = [r', g', b', 255]
            \<and> uint r' = Math_round (num (100::byte) * (num (77::byte) / 255) + 255 * (1 - num (77::byte) / 255))"
    by (simp only: compositeOnWhite.simps(2)) blast
  from 1 2 3 t show ?thesis by simp
qed

section \<open>The JPEG strategy: the optimization after the blending\<close>

lemma Math_round_half: "Math_round (real_of_int k / 2) = (k + 1) div 2"
proof -
  have "real_of_int k / 2 + 1 / 2 = real_of_int (k + 1) / real_of_int 2" by simp
  then show ?thesis unfolding Math_round_def by (simp only: floor_divide_of_int_eq)
qed

lemma uint_quantizeChannel_2: "uint (quantizeChannel 2 v) = min 255 (2 * ((uint v + 1) div 2))"
proof -
  let ?m = "(uint v + 1) div 2"
  have m: "0 \<le> ?m" "?m \<le> 128" using uint_byte_le [of v] uint_ge_0 [of v] by simp_all
  have q: "quantizeChannel 2 v = ToUint8Clamp (real_of_int (2 * ?m))"
    unfolding quantizeChannel_def num_def Math_round_half by (simp add: mult.commute)
  show ?thesis
  proof (cases "2 * ?m \<le> 255")
    case True
    have k: "0 \<le> 2 * ?m" using m by simp
    show ?thesis
      unfolding q by (simp only: ToUint8Clamp_of_int [OF k True] uint_byte_of_int [OF k True]) (use True in simp)
  next
    case False
    then have "255 \<le> real_of_int (2 * ?m)" by linarith
    then have "ToUint8Clamp (real_of_int (2 * ?m)) = 255"
      unfolding ToUint8Clamp_def by (simp del: of_int_mult of_int_add)
    then show ?thesis unfolding q using False by simp
  qed
qed

text \<open>
  Claim C2, as stated: after the blending, the JPEG strategy applies the chroma
  transform (YCbCr, Cb and Cr to a multiple of 4). It fails on the opaque pixel
  (1, 0, 0, 255): the strategy gives (2, 0, 0, 255), the chroma transform (0, 0, 0, 255).
\<close>

theorem JpegConversionStrategy_applyOptimization_counterexample:
  "JpegConversionStrategy_applyOptimization [1, 0, 0, 255] = [2, 0, 0, 255]
   \<and> applyPsychovisualOptimization (compositeOnWhite [1, 0, 0, 255]) = [0, 0, 0, 255]
   \<and> JpegConversionStrategy_applyOptimization [1, 0, 0, 255]
       \<noteq> applyPsychovisualOptimization (compositeOnWhite [1, 0, 0, 255])"
proof -
  have p: "psychovisualPixel 1 0 0 = (0, 0, 0)"
    unfolding psychovisualPixel_def Let_def num_def Math_round_def
    apply (simp add: fl_eval)
    apply (simp add: ToUint8Clamp_def)
    done
  have c: "compositeOnWhite [1, 0, 0, 255] = [1, 0, 0, 255]"
    by (simp add: num_def)
  have j: "JpegConversionStrategy_applyOptimization [1, 0, 0, 255] = [2, 0, 0, 255]"
    unfolding JpegConversionStrategy_applyOptimization_def c
      BaseConversionStrategy_applyOptimization_def
    by (simp add: quantizeChannel_def num_def Math_round_def ToUint8Clamp_def)
  have a: "applyPsychovisualOptimization (compositeOnWhite [1, 0, 0, 255]) = [0, 0, 0, 255]"
    unfolding c by (simp add: p)
  show ?thesis unfolding j a by simp
qed

text \<open>
  Claim C2, amended. After the blending, the JPEG strategy applies the optimization of
  the base class, which works on R, G and B directly: each of the three bytes \<open>v\<close> of
  every pixel is replaced by \<open>Math.round(v / 2) * 2\<close>, the nearest even number with a tie
  going up, stored as a byte (so 255 stays 255), and alpha is not touched. No conversion
  to YCbCr takes place.
\<close>

theorem JpegConversionStrategy_applyOptimization_direct:
  "JpegConversionStrategy_applyOptimization data = mapRGB (quantizeChannel 2) (compositeOnWhite data)
   \<and> mapRGB (quantizeChannel 2) (r # g # b # a # rest)
       = quantizeChannel 2 r # quantizeChannel 2 g # quantizeChannel 2 b # a
         # mapRGB (quantizeChannel 2) rest
   \<and> uint (quantizeChannel 2 v) = min 255 (2 * ((uint v + 1) div 2))"
  by (simp add: JpegConversionStrategy_applyOptimization_def
      BaseConversionStrategy_applyOptimization_def uint_quantizeChannel_2)

section \<open>The pipeline: quality and dimensions\<close>

lemma builtin_convert_encoder:
  assumes "ConversionStrategyFactory_strategies P fmt = Some strategy"
    and "fst (strategy bm q opt) = Inr blob"
  shows "\<exists>canvas. toBlob P canvas fmt (if fmt \<in> {JPEG, WEBP, AVIF} then q else 1) = Some blob"
proof (cases fmt)
  case JPEG
  with assms show ?thesis
    by (auto simp add: ConversionStrategyFactory_strategies_def JpegConversionStrategy_convert_def
        BaseConversionStrategy_convert_def canvasToBlob_def
        split: if_splits sum.splits option.splits)
next
  case PNG
  with assms show ?thesis
    by (auto simp add: ConversionStrategyFactory_strategies_def PngConversionStrategy_convert_def
        canvasToBlob_def split: if_splits sum.splits option.splits)
next
  case WEBP
  with assms show ?thesis
    by (auto simp add: ConversionStrategyFactory_strategies_def WebpConversionStrategy_convert_def
        BaseConversionStrategy_convert_def canvasToBlob_def
        split: if_splits sum.splits option.splits)
next
  case AVIF
  with assms show ?thesis
    by (auto simp add: ConversionStrategyFactory_strategies_def AvifConversionStrategy_convert_def
        canvasToBlob_def split: if_splits sum.splits option.splits)
next
  case GIF
  with assms show ?thesis
    by (auto simp add: ConversionStrategyFactory_strategies_def GifConversionStrategy_convert_def
        plainConvert_def canvasToBlob_def split: if_splits sum.splits option.splits)
next
  case BMP
  with assms show ?thesis
    by (auto simp add: ConversionStrategyFactory_strategies_def BmpConversionStrategy_convert_def
        plainConvert_def canvasToBlob_def split: if_splits sum.splits option.splits)
qed

lemma process_Inr:
  assumes "process P strategies optimizer file options = Inr res"
  shows "\<exists>bm strategy q after. prepareBitmap P file options = Inr bm
     \<and> strategies (targetFormat options) = Some strategy
     \<and> determineQuality optimizer options bm = Inr q
     \<and> strategy bm q (optimize options) = (Inr (res_blob res), after)
     \<and> res_width res = width bm \<and> res_height res = height bm"
  using assms
  by (auto simp add: process_def getStrategy_def Let_def
      split: sum.splits option.splits prod.splits)

lemma determineQuality_cases:
  "determineQuality optimizer options bm = Inr q \<Longrightarrow>
     (if optimize options \<and> optimizer \<noteq> None then the optimizer bm = Inr q
      else q = quality options)"
  by (auto simp add: determineQuality_def split: bool.splits option.splits)

text \<open>
  Claim C1, amended. In a successful run of \<open>process\<close> with the built-in strategies, the
  quality \<open>q\<close> handed to the strategy is the optimizer's \<open>calculateOptimalQuality\<close> of
  the bitmap whenever \<open>optimize\<close> is set and the service has an optimizer, whatever
  quality the caller supplied, and the caller's quality in every other case; the encoder
  is then called with \<open>q\<close> for JPEG, WebP and AVIF and with 1.0 for PNG, GIF and BMP.
\<close>

theorem process_quality_to_encoder:
  assumes "process P (ConversionStrategyFactory_strategies P) optimizer file options = Inr res"
  shows "\<exists>bm q canvas. prepareBitmap P file options = Inr bm
     \<and> (if optimize options \<and> optimizer \<noteq> None then the optimizer bm = Inr q
         else q = quality options)
     \<and> toBlob P canvas (targetFormat options)
          (if targetFormat options \<in> {JPEG, WEBP, AVIF} then q else 1) = Some (res_blob res)"
proof -
  from process_Inr [OF assms] obtain bm strategy q after where
    bm: "prepareBitmap P file options = Inr bm"
    and st: "ConversionStrategyFactory_strategies P (targetFormat options) = Some strategy"
    and dq: "determineQuality optimizer options bm = Inr q"
    and cv: "strategy bm q (optimize options) = (Inr (res_blob res), after)"
    by blast
  from cv have "fst (strategy bm q (optimize options)) = Inr (res_blob res)" by simp
  from builtin_convert_encoder [OF st this] obtain canvas where
    "toBlob P canvas (targetFormat options)
       (if targetFormat options \<in> {JPEG, WEBP, AVIF} then q else 1) = Some (res_blob res)"
    by blast
  with bm determineQuality_cases [OF dq] show ?thesis by blast
qed

text \<open>
  Claim C8. In every successful run of \<open>process\<close>, with any registry of strategies, the
  width and height of the result are those of the bitmap that was handed to the
  strategy, as they were before the call, whatever the strategy leaves of that bitmap
  (\<open>after\<close>), a closed bitmap included.
\<close>

theorem process_dimensions_before_convert:
  assumes "process P strategies optimizer file options = Inr res"
  shows "\<exists>bm strategy q after. prepareBitmap P file options = Inr bm
     \<and> strategies (targetFormat options) = Some strategy
     \<and> strategy bm q (optimize options) = (Inr (res_blob res), after)
     \<and> res_width res = width bm \<and> res_height res = height bm"
  using process_Inr [OF assms] by blast


lemma example_valid: "isValidImage \<lparr>fname = ''photo.png'', ftype = ''image/png'', fsize = 100\<rparr>"
  by (simp add: isValidImage_def startsWith_def extensionOf_def toLowerCase_def
      toLowerCase_char_def in_object_def IMAGE_EXTENSIONS_def)

lemma example_prepare:
  "prepareBitmap (recordingPlatform bm) \<lparr>fname = ''photo.png'', ftype = ''image/png'', fsize = 100\<rparr>
     \<lparr>targetFormat = fmt, quality = q, optimize = opt, maxWidth = None, maxHeight = None,
      maintainAspectRatio = True\<rparr> = Inr bm"
  by (simp add: prepareBitmap_def example_valid loadImage_def recordingPlatform_def
      shouldResize_def truthy_def)

lemma example_quality:
  "calculateOptimalQuality (recordingPlatform bm) \<lparr>width = 2, height = 1, pixels = [10, 20, 30, 255, 10, 20, 30, 255]\<rparr>
     = Inr 0.75"
  by (simp add: calculateOptimalQuality_def recordingPlatform_def drawImage_def getImageData_def
      calculateImageComplexity_def qualityForComplexity_def divD_def mulD_def addD_def fl_0)

lemma example_jpeg_pixels: "JpegConversionStrategy_applyOptimization [10, 20, 30, 255, 10, 20, 30, 255]
     = [10, 20, 30, 255, 10, 20, 30, 255]"
  by (simp add: JpegConversionStrategy_applyOptimization_def
      BaseConversionStrategy_applyOptimization_def num_def quantizeChannel_def Math_round_def
      ToUint8Clamp_def)

lemma example_convert:
  "JpegConversionStrategy_convert (recordingPlatform bm)
     \<lparr>width = 2, height = 1, pixels = [10, 20, 30, 255, 10, 20, 30, 255]\<rparr> q opt
   = (Inr (\<lparr>cwidth = 2, cheight = 1, cdata = [10, 20, 30, 255, 10, 20, 30, 255]\<rparr>, JPEG, q),
      \<lparr>width = 2, height = 1, pixels = [10, 20, 30, 255, 10, 20, 30, 255]\<rparr>)"
  by (simp add: JpegConversionStrategy_convert_def BaseConversionStrategy_convert_def
      recordingPlatform_def drawImage_def canvasToBlob_def example_jpeg_pixels)

lemma process_run:
  assumes "prepareBitmap P file options = Inr bm"
    and "strategies (targetFormat options) = Some strategy"
    and "determineQuality optimizer options bm = Inr q"
    and "strategy bm q (optimize options) = (Inr blob, after)"
  shows "process P strategies optimizer file options
         = Inr \<lparr>res_blob = blob, res_format = targetFormat options,
                res_originalSize = fsize file, res_processedSize = blobSize P blob,
                res_width = width bm, res_height = height bm\<rparr>"
  by (simp add: process_def getStrategy_def assms)

lemma example_process:
  "process (recordingPlatform \<lparr>width = 2, height = 1, pixels = [10, 20, 30, 255, 10, 20, 30, 255]\<rparr>)
     (ConversionStrategyFactory_strategies
        (recordingPlatform \<lparr>width = 2, height = 1, pixels = [10, 20, 30, 255, 10, 20, 30, 255]\<rparr>))
     (Some (calculateOptimalQuality
        (recordingPlatform \<lparr>width = 2, height = 1, pixels = [10, 20, 30, 255, 10, 20, 30, 255]\<rparr>)))
     \<lparr>fname = ''photo.png'', ftype = ''image/png'', fsize = 100\<rparr>
     \<lparr>targetFormat = JPEG, quality = 0.5, optimize = True, maxWidth = None, maxHeight = None,
      maintainAspectRatio = True\<rparr>
   = Inr \<lparr>res_blob = (\<lparr>cwidth = 2, cheight = 1, cdata = [10, 20, 30, 255, 10, 20, 30, 255]\<rparr>, JPEG, 0.75),
          res_format = JPEG, res_originalSize = 100, res_processedSize = 8,
          res_width = 2, res_height = 1\<rparr>"
proof -
  let ?bm = "\<lparr>width = 2, height = 1, pixels = [10, 20, 30, 255, 10, 20, 30, 255]\<rparr>"
  let ?P = "recordingPlatform ?bm"
  let ?options = "\<lparr>targetFormat = JPEG, quality = 0.5, optimize = True, maxWidth = None,
      maxHeight = None, maintainAspectRatio = True\<rparr>"
  have st: "ConversionStrategyFactory_strategies ?P (targetFormat ?options)
              = Some (JpegConversionStrategy_convert ?P)"
    by (simp add: ConversionStrategyFactory_strategies_def)
  have dq: "determineQuality (Some (calculateOptimalQuality ?P)) ?options ?bm = Inr 0.75"
    by (simp add: determineQuality_def example_quality del: One_nat_def)
  have cv: "JpegConversionStrategy_convert ?P ?bm 0.75 (optimize ?options)
              = (Inr (\<lparr>cwidth = 2, cheight = 1, cdata = [10, 20, 30, 255, 10, 20, 30, 255]\<rparr>, JPEG, 0.75), ?bm)"
    by (rule example_convert)
  have sz: "blobSize ?P (\<lparr>cwidth = 2, cheight = 1, cdata = [10, 20, 30, 255, 10, 20, 30, 255]\<rparr>, JPEG, 0.75) = 8"
    by (simp add: recordingPlatform_def)
  show ?thesis
    unfolding process_run [where strategies = "ConversionStrategyFactory_strategies ?P"
        and strategy = "JpegConversionStrategy_convert ?P", OF example_prepare st dq cv] sz
    by simp
qed

text \<open>
  Claim C1, as stated: with \<open>optimize\<close> set and a quality supplied by the caller, the
  caller's quality reaches the encoder unchanged. It fails on a JPEG conversion of two
  pixels of one colour with quality 0.5 and \<open>optimize\<close> set: the encoder of the recording
  platform is called with quality 0.75, the optimizer's choice for a flat image.
\<close>

theorem process_overrides_caller_quality_counterexample:
  "process (recordingPlatform \<lparr>width = 2, height = 1, pixels = [10, 20, 30, 255, 10, 20, 30, 255]\<rparr>)
     (ConversionStrategyFactory_strategies
        (recordingPlatform \<lparr>width = 2, height = 1, pixels = [10, 20, 30, 255, 10, 20, 30, 255]\<rparr>))
     (Some (calculateOptimalQuality
        (recordingPlatform \<lparr>width = 2, height = 1, pixels = [10, 20, 30, 255, 10, 20, 30, 255]\<rparr>)))
     \<lparr>fname = ''photo.png'', ftype = ''image/png'', fsize = 100\<rparr>
     \<lparr>targetFormat = JPEG, quality = 0.5, optimize = True, maxWidth = None, maxHeight = None,
      maintainAspectRatio = True\<rparr>
   = Inr \<lparr>res_blob = (\<lparr>cwidth = 2, cheight = 1, cdata = [10, 20, 30, 255, 10, 20, 30, 255]\<rparr>, JPEG, 0.75),
          res_format = JPEG, res_originalSize = 100, res_processedSize = 8,
          res_width = 2, res_height = 1\<rparr>
   \<and> (0.75 :: real) \<noteq> 0.5"
  using example_process by simp

theorem process_quality_to_encoder_witness:
  "process (recordingPlatform \<lparr>width = 2, height = 1, pixels = [10, 20, 30, 255, 10, 20, 30, 255]\<rparr>)
     (ConversionStrategyFactory_strategies
        (recordingPlatform \<lparr>width = 2, height = 1, pixels = [10, 20, 30, 255, 10, 20, 30, 255]\<rparr>))
     (Some (calculateOptimalQuality
        (recordingPlatform \<lparr>width = 2, height = 1, pixels = [10, 20, 30, 255, 10, 20, 30, 255]\<rparr>)))
     \<lparr>fname = ''photo.png'', ftype = ''image/png'', fsize = 100\<rparr>
     \<lparr>targetFormat = JPEG, quality = 0.5, optimize = True, maxWidth = None, maxHeight = None,
      maintainAspectRatio = True\<rparr>
   = Inr \<lparr>res_blob = (\<lparr>cwidth = 2, cheight = 1, cdata = [10, 20, 30, 255, 10, 20, 30, 255]\<rparr>, JPEG, 0.75),
          res_format = JPEG, res_originalSize = 100, res_processedSize = 8,
          res_width = 2, res_height = 1\<rparr>
   \<and> (\<exists>q canvas.
         calculateOptimalQuality
           (recordingPlatform \<lparr>width = 2, height = 1, pixels = [10, 20, 30, 255, 10, 20, 30, 255]\<rparr>)
           \<lparr>width = 2, height = 1, pixels = [10, 20, 30, 255, 10, 20, 30, 255]\<rparr> = Inr q
       \<and> toBlob (recordingPlatform \<lparr>width = 2, height = 1, pixels = [10, 20, 30, 255, 10, 20, 30, 255]\<rparr>)
           canvas JPEG q
         = Some (\<lparr>cwidth = 2, cheight = 1, cdata = [10, 20, 30, 255, 10, 20, 30, 255]\<rparr>, JPEG, 0.75))"
proof -
  note run = example_process
  from process_quality_to_encoder [OF run] obtain bm q canvas where
    "prepareBitmap
       (recordingPlatform \<lparr>width = 2, height = 1, pixels = [10, 20, 30, 255, 10, 20, 30, 255]\<rparr>)
       \<lparr>fname = ''photo.png'', ftype = ''image/png'', fsize = 100\<rparr>
       \<lparr>targetFormat = JPEG, quality = 0.5, optimize = True, maxWidth = None, maxHeight = None,
        maintainAspectRatio = True\<rparr> = Inr bm"
    and "calculateOptimalQuality
           (recordingPlatform \<lparr>width = 2, height = 1, pixels = [10, 20, 30, 255, 10, 20, 30, 255]\<rparr>)
           bm = Inr q"
    and "toBlob (recordingPlatform \<lparr>width = 2, height = 1, pixels = [10, 20, 30, 255, 10, 20, 30, 255]\<rparr>)
           canvas JPEG q
         = Some (\<lparr>cwidth = 2, cheight = 1, cdata = [10, 20, 30, 255, 10, 20, 30, 255]\<rparr>, JPEG, 0.75)"
    by auto
  then show ?thesis using run by (auto simp add: example_prepare)
qed

lemma example_closing_process:
  "process (recordingPlatform \<lparr>width = 2, height = 1, pixels = [10, 20, 30, 255, 10, 20, 30, 255]\<rparr>)
     [JPEG \<mapsto> closingStrategy
        (recordingPlatform \<lparr>width = 2, height = 1, pixels = [10, 20, 30, 255, 10, 20, 30, 255]\<rparr>)]
     None
     \<lparr>fname = ''photo.png'', ftype = ''image/png'', fsize = 100\<rparr>
     \<lparr>targetFormat = JPEG, quality = 0.5, optimize = False, maxWidth = None, maxHeight = None,
      maintainAspectRatio = True\<rparr>
   = Inr \<lparr>res_blob = (\<lparr>cwidth = 2, cheight = 1, cdata = [10, 20, 30, 255, 10, 20, 30, 255]\<rparr>, JPEG, 0.5),
          res_format = JPEG, res_originalSize = 100, res_processedSize = 8,
          res_width = 2, res_height = 1\<rparr>"
proof -
  let ?bm = "\<lparr>width = 2, height = 1, pixels = [10, 20, 30, 255, 10, 20, 30, 255]\<rparr>"
  let ?P = "recordingPlatform ?bm"
  let ?options = "\<lparr>targetFormat = JPEG, quality = 0.5, optimize = False, maxWidth = None,
      maxHeight = None, maintainAspectRatio = True\<rparr>"
  have st: "[JPEG \<mapsto> closingStrategy ?P] (targetFormat ?options) = Some (closingStrategy ?P)"
    by simp
  have dq: "determineQuality None ?options ?bm = Inr 0.5"
    by (simp add: determineQuality_def)
  have cv: "closingStrategy ?P ?bm 0.5 (optimize ?options)
              = (Inr (\<lparr>cwidth = 2, cheight = 1, cdata = [10, 20, 30, 255, 10, 20, 30, 255]\<rparr>, JPEG, 0.5),
                 closeBitmap ?bm)"
    unfolding closingStrategy_def example_convert by simp
  have sz: "blobSize ?P (\<lparr>cwidth = 2, cheight = 1, cdata = [10, 20, 30, 255, 10, 20, 30, 255]\<rparr>, JPEG, 0.5) = 8"
    by (simp add: recordingPlatform_def)
  show ?thesis
    unfolding process_run [where strategies = "[JPEG \<mapsto> closingStrategy ?P]"
        and strategy = "closingStrategy ?P", OF example_prepare st dq cv] sz
    by simp
qed

text \<open>
  A run with a strategy that closes the bitmap: the result is 2 by 1, the bitmap after
  the call is 0 by 0.
\<close>

theorem process_dimensions_before_convert_witness:
  "process (recordingPlatform \<lparr>width = 2, height = 1, pixels = [10, 20, 30, 255, 10, 20, 30, 255]\<rparr>)
     [JPEG \<mapsto> closingStrategy
        (recordingPlatform \<lparr>width = 2, height = 1, pixels = [10, 20, 30, 255, 10, 20, 30, 255]\<rparr>)]
     None
     \<lparr>fname = ''photo.png'', ftype = ''image/png'', fsize = 100\<rparr>
     \<lparr>targetFormat = JPEG, quality = 0.5, optimize = False, maxWidth = None, maxHeight = None,
      maintainAspectRatio = True\<rparr>
   = Inr \<lparr>res_blob = (\<lparr>cwidth = 2, cheight = 1, cdata = [10, 20, 30, 255, 10, 20, 30, 255]\<rparr>, JPEG, 0.5),
          res_format = JPEG, res_originalSize = 100, res_processedSize = 8,
          res_width = 2, res_height = 1\<rparr>
   \<and> (\<exists>q after.
         closingStrategy
           (recordingPlatform \<lparr>width = 2, height = 1, pixels = [10, 20, 30, 255, 10, 20, 30, 255]\<rparr>)
           \<lparr>width = 2, height = 1, pixels = [10, 20, 30, 255, 10, 20, 30, 255]\<rparr> q False
         = (Inr (\<lparr>cwidth = 2, cheight = 1, cdata = [10, 20, 30, 255, 10, 20, 30, 255]\<rparr>, JPEG, 0.5), after)
       \<and> width after = 0 \<and> height after = 0)"
proof -
  note run = example_closing_process
  from process_dimensions_before_convert [OF run] obtain bm strategy q after where
    bm: "prepareBitmap
       (recordingPlatform \<lparr>width = 2, height = 1, pixels = [10, 20, 30, 255, 10, 20, 30, 255]\<rparr>)
       \<lparr>fname = ''photo.png'', ftype = ''image/png'', fsize = 100\<rparr>
       \<lparr>targetFormat = JPEG, quality = 0.5, optimize = False, maxWidth = None, maxHeight = None,
        maintainAspectRatio = True\<rparr> = Inr bm"
    and st: "[JPEG \<mapsto> closingStrategy
        (recordingPlatform \<lparr>width = 2, height = 1, pixels = [10, 20, 30, 255, 10, 20, 30, 255]\<rparr>)] JPEG
        = Some strategy"
    and cv: "strategy bm q False
        = (Inr (\<lparr>cwidth = 2, cheight = 1, cdata = [10, 20, 30, 255, 10, 20, 30, 255]\<rparr>, JPEG, 0.5), after)"
    by auto
  from bm have b: "bm = \<lparr>width = 2, height = 1, pixels = [10, 20, 30, 255, 10, 20, 30, 255]\<rparr>"
    by (simp add: example_prepare)
  from st have s: "strategy = closingStrategy
        (recordingPlatform \<lparr>width = 2, height = 1, pixels = [10, 20, 30, 255, 10, 20, 30, 255]\<rparr>)"
    by simp
  from cv have "after = closeBitmap bm"
    unfolding s by (simp add: closingStrategy_def)
  then have "width after = 0 \<and> height after = 0" by (simp add: closeBitmap_def)
  with cv b s run show ?thesis by blast
qed

end
